theory Spec2Isabelle
  imports Complex_Main
begin

section \<open>Rate limiter (checkRateLimit of the credit deduction route)\<close>

text \<open>
  The in-memory map \<^verbatim>\<open>rateLimitMap\<close> holds, per user id, the counter of the current
  window and the time at which the window ends. \<^verbatim>\<open>Date.now()\<close> is passed in as an integer
  number of milliseconds.
\<close>

record rate_entry =
  count :: nat
  resetAt :: int

type_synonym rate_map = "string \<Rightarrow> rate_entry option"

definition RATE_LIMIT :: nat where
  "RATE_LIMIT = 10"

definition RATE_WINDOW :: int where
  "RATE_WINDOW = 60 * 1000"

definition checkRateLimit :: "int \<Rightarrow> string \<Rightarrow> rate_map \<Rightarrow> bool \<times> rate_map" where
  "checkRateLimit now userId m =
     (case m userId of
        None \<Rightarrow> (True, m(userId \<mapsto> \<lparr>count = 1, resetAt = now + RATE_WINDOW\<rparr>))
      | Some userLimit \<Rightarrow>
          if now > resetAt userLimit
          then (True, m(userId \<mapsto> \<lparr>count = 1, resetAt = now + RATE_WINDOW\<rparr>))
          else if count userLimit \<ge> RATE_LIMIT then (False, m)
          else (True, m(userId \<mapsto> userLimit\<lparr>count := count userLimit + 1\<rparr>)))"

text \<open>
  A run of calls, each by some identity at some time, in the order in which they reach
  the process; the answers given to one identity are collected in call order.
\<close>

fun run_calls :: "(string \<times> int) list \<Rightarrow> rate_map \<Rightarrow> (string \<times> bool) list \<times> rate_map" where
  "run_calls [] m = ([], m)"
| "run_calls ((u, t) # cs) m =
     (let (r, m') = checkRateLimit t u m;
          (rs, m'') = run_calls cs m'
      in ((u, r) # rs, m''))"

definition answers_for :: "string \<Rightarrow> (string \<times> bool) list \<Rightarrow> bool list" where
  "answers_for u rs = map snd (filter (\<lambda>p. fst p = u) rs)"

definition calls_of :: "string \<Rightarrow> (string \<times> int) list \<Rightarrow> nat" where
  "calls_of u cs = length (filter (\<lambda>p. fst p = u) cs)"

text \<open>A call opens a new window when the identity has no entry or its window has ended.\<close>

definition opens_window :: "rate_map \<Rightarrow> string \<Rightarrow> int \<Rightarrow> bool" where
  "opens_window m u t = (case m u of None \<Rightarrow> True | Some e \<Rightarrow> t > resetAt e)"

section \<open>The persisted tables\<close>

text \<open>
  One row type per table the routes write. Columns that only hold the time of the write
  (\<^verbatim>\<open>created_at\<close>, \<^verbatim>\<open>updated_at\<close>) are left out. The amounts
  \<^verbatim>\<open>parseFloat(capture.amount.value) * 100\<close> written to receipts and payment logs are
  kept as the text they are computed from. A new row is appended at the end of its table.

  The webhook route reads and writes the column \<^verbatim>\<open>credits\<close> of
  \<^verbatim>\<open>user_credits\<close>, the batch route reads the column \<^verbatim>\<open>balance\<close>. The map
  \<open>user_credits\<close>, from user id to an amount, stands for the column of the route that
  runs: a credit the webhook route writes does not reach the balance the batch route
  reads, so no run below has a delivery to the webhook route together with a batch
  submission, a deduction request or a ledger operation.

  A row of \<^verbatim>\<open>credit_transactions\<close> is a ledger entry: its amount is the signed change
  of the balance. \<open>txn_key\<close> is the idempotency key of the entry; the routes write
  none.

  The store client reports an error in the value it returns and does not throw. A store
  call is taken to succeed, with one exception that the migrations fix: the columns
  \<^verbatim>\<open>user_credits.credits\<close> and \<^verbatim>\<open>credit_transactions.amount\<close> are
  \<^verbatim>\<open>INTEGER NOT NULL\<close> and \<^verbatim>\<open>receipts.credits\<close> is \<^verbatim>\<open>INTEGER\<close>, so a write
  that gives one of them a value that is not a number is refused and leaves the table as
  it was.
\<close>

record txn_metadata =
  meta_capture_id :: string
  meta_amount_paid :: string
  meta_currency :: string
  meta_plan_id :: string

record credit_transaction =
  txn_user_id :: string
  txn_amount :: int
  txn_reason :: string
  txn_metadata :: "txn_metadata option"
  txn_key :: "string option"

record receipt =
  receipt_user_id :: string
  receipt_type :: string
  receipt_amount :: string
  receipt_currency :: string
  receipt_credits :: "int option"
  paypal_capture_id :: string

record payment_log =
  log_user_id :: string
  log_provider :: string
  log_payment_id :: string
  log_status :: string
  log_amount :: string
  log_currency :: string

record batch_file =
  input_url :: string
  file_status :: string

record batch_job =
  job_id :: nat
  job_user_id :: string
  job_operation :: string
  job_status :: string
  job_files :: "batch_file list"
  job_progress :: nat

record queue_entry =
  queue_job_id :: nat
  queue_job_type :: string
  queue_status :: string

datatype console_line = ConsoleError string | ConsoleLog string

record store =
  user_credits :: "string \<Rightarrow> int option"
  credit_transactions :: "credit_transaction list"
  receipts :: "receipt list"
  payment_logs :: "payment_log list"
  batch_jobs :: "batch_job list"
  job_queue :: "queue_entry list"
  console :: "console_line list"

definition console_error :: "string \<Rightarrow> store \<Rightarrow> store" where
  "console_error msg s = s\<lparr>console := console s @ [ConsoleError msg]\<rparr>"

definition console_log :: "string \<Rightarrow> store \<Rightarrow> store" where
  "console_log msg s = s\<lparr>console := console s @ [ConsoleLog msg]\<rparr>"

text \<open>
  \<^verbatim>\<open>data?.credits || 0\<close> and \<^verbatim>\<open>data?.balance || 0\<close>: a missing row reads as 0.
\<close>

definition balance_of :: "store \<Rightarrow> string \<Rightarrow> int" where
  "balance_of s userId = (case user_credits s userId of None \<Rightarrow> 0 | Some c \<Rightarrow> c)"

section \<open>PayPal webhook route\<close>

text \<open>
  The parsed event. \<^verbatim>\<open>custom_id\<close> and \<^verbatim>\<open>invoice_id\<close> are tested by the handler and
  may be absent; so may \<^verbatim>\<open>resource\<close> and \<^verbatim>\<open>resource.amount\<close>, whose absence makes
  the handler throw a TypeError when it reads a member of them.
\<close>

record paypal_amount =
  amount_value :: string
  currency_code :: string

record capture =
  custom_id :: "string option"
  invoice_id :: "string option"
  capture_id :: string
  capture_amount :: "paypal_amount option"

record paypal_event =
  event_type :: string
  resource :: "capture option"

text \<open>
  The two cost tables are object literals read with \<^verbatim>\<open>table[key]\<close>. Such a read
  finds the table's own keys and, for any other key, what every object inherits from
  \<^verbatim>\<open>Object.prototype\<close>: eleven functions, and under \<^verbatim>\<open>__proto__\<close> the prototype
  object itself. An inherited member is truthy and is not a number.
\<close>

definition Object_prototype_functions :: "string list" where
  "Object_prototype_functions =
     [''constructor'', ''hasOwnProperty'', ''isPrototypeOf'', ''propertyIsEnumerable'',
      ''toLocaleString'', ''toString'', ''valueOf'', ''__defineGetter__'',
      ''__defineSetter__'', ''__lookupGetter__'', ''__lookupSetter__'']"

datatype looked_up = Number int | A_function | An_object | Not_found

definition get_property :: "(string \<Rightarrow> int option) \<Rightarrow> string \<Rightarrow> looked_up" where
  "get_property table k =
     (case table k of
        Some v \<Rightarrow> Number v
      | None \<Rightarrow>
          if k = ''__proto__'' then An_object
          else if k \<in> set Object_prototype_functions then A_function
          else Not_found)"

definition CREDIT_PACKAGES :: "string \<Rightarrow> int option" where
  "CREDIT_PACKAGES =
     [''STARTER_PLAN'' \<mapsto> 100,
      ''PRO_PLAN'' \<mapsto> 500,
      ''BUSINESS_PLAN'' \<mapsto> 2000,
      ''ENTERPRISE_PLAN'' \<mapsto> 10000]"

text \<open>\<^verbatim>\<open>!x\<close> on a string that may be absent: absent and empty strings are falsy.\<close>

definition falsy :: "string option \<Rightarrow> bool" where
  "falsy x = (case x of None \<Rightarrow> True | Some v \<Rightarrow> v = [])"

text \<open>
  How a call of \<^verbatim>\<open>handlePaymentCompleted\<close> ends: at one of its two early returns, at
  its end after the credit was written, or with the exception its \<^verbatim>\<open>catch\<close> block
  logs and rethrows.
\<close>

datatype completion =
  Returned_missing_ids | Returned_unknown_plan | Returned_credited | Thrown

text \<open>
  The handler runs in two stretches. The first (\<^verbatim>\<open>// Get current credits\<close> and all
  before it) extracts the identifiers, looks the plan up and reads the user's credits;
  it writes nothing but console lines. The second (\<^verbatim>\<open>// Update credits\<close> and all after
  it) writes the new total, computed from the credits that were read, and the three log
  rows. The handler is the first followed by the second on the same store.
  \<open>creditsToAdd\<close> is \<^verbatim>\<open>CREDIT_PACKAGES[planId] || 0\<close>.
\<close>

datatype payment_checked =
    Return_early completion store
  | Selected capture string string looked_up int

definition get_current_credits :: "paypal_event \<Rightarrow> store \<Rightarrow> payment_checked" where
  "get_current_credits event s =
     (case resource event of
        None \<Rightarrow> Return_early Thrown (console_error ''Error processing PayPal payment:'' s)
      | Some capture \<Rightarrow>
          if falsy (custom_id capture) \<or> falsy (invoice_id capture)
          then Return_early Returned_missing_ids
                 (console_error ''Missing user_id or plan_id in PayPal webhook'' s)
          else
            let userId = (case custom_id capture of Some u \<Rightarrow> u | None \<Rightarrow> []);
                planId = (case invoice_id capture of Some p \<Rightarrow> p | None \<Rightarrow> []);
                creditsToAdd = (case get_property CREDIT_PACKAGES planId of
                                  Not_found \<Rightarrow> Number 0
                                | found \<Rightarrow> found)
            in if creditsToAdd = Number 0
               then Return_early Returned_unknown_plan
                      (console_error (''Unknown plan ID: '' @ planId) s)
               else Selected capture userId planId creditsToAdd (balance_of s userId))"

text \<open>
  When \<open>creditsToAdd\<close> is not a number, \<^verbatim>\<open>currentCredits + creditsToAdd\<close> is a
  string and the upsert is refused; the ledger insert is refused for its amount; the
  receipt is written without credits for a function (which the JSON encoding drops) and
  refused for an object.
\<close>

definition update_credits ::
  "capture \<Rightarrow> string \<Rightarrow> string \<Rightarrow> looked_up \<Rightarrow> int \<Rightarrow> store \<Rightarrow> completion \<times> store" where
  "update_credits capture userId planId creditsToAdd currentCredits s =
     (let s1 = (case creditsToAdd of
                  Number c \<Rightarrow> s\<lparr>user_credits := (user_credits s)(userId \<mapsto> currentCredits + c)\<rparr>
                | _ \<Rightarrow> s)
      in (case capture_amount capture of
            None \<Rightarrow> (Thrown, console_error ''Error processing PayPal payment:'' s1)
          | Some paid \<Rightarrow>
              let s2 = (case creditsToAdd of
                          Number c \<Rightarrow>
                            s1\<lparr>credit_transactions := credit_transactions s1 @
                              [\<lparr>txn_user_id = userId,
                                txn_amount = c,
                                txn_reason = ''PayPal purchase: '' @ capture_id capture,
                                txn_metadata = Some
                                  \<lparr>meta_capture_id = capture_id capture,
                                   meta_amount_paid = amount_value paid,
                                   meta_currency = currency_code paid,
                                   meta_plan_id = planId\<rparr>,
                                txn_key = None\<rparr>]\<rparr>
                        | _ \<Rightarrow> s1);
                  s3 = (if creditsToAdd = An_object then s2
                        else s2\<lparr>receipts := receipts s2 @
                          [\<lparr>receipt_user_id = userId,
                            receipt_type = ''credit_purchase'',
                            receipt_amount = amount_value paid,
                            receipt_currency = currency_code paid,
                            receipt_credits =
                              (case creditsToAdd of Number c \<Rightarrow> Some c | _ \<Rightarrow> None),
                            paypal_capture_id = capture_id capture\<rparr>]\<rparr>);
                  s4 = s3\<lparr>payment_logs := payment_logs s3 @
                        [\<lparr>log_user_id = userId,
                          log_provider = ''paypal'',
                          log_payment_id = capture_id capture,
                          log_status = ''completed'',
                          log_amount = amount_value paid,
                          log_currency = currency_code paid\<rparr>]\<rparr>
              in (Returned_credited,
                  console_log (''PayPal: Credits added for user '' @ userId) s4)))"

definition handlePaymentCompleted :: "paypal_event \<Rightarrow> store \<Rightarrow> completion \<times> store" where
  "handlePaymentCompleted event s =
     (case get_current_credits event s of
        Return_early c s' \<Rightarrow> (c, s')
      | Selected capture userId planId creditsToAdd currentCredits \<Rightarrow>
          update_credits capture userId planId creditsToAdd currentCredits s)"

text \<open>
  \<^verbatim>\<open>handlePaymentFailed\<close> logs its own exceptions and does not rethrow them.
\<close>

definition handlePaymentFailed :: "paypal_event \<Rightarrow> store \<Rightarrow> store" where
  "handlePaymentFailed event s =
     (case resource event of
        None \<Rightarrow> console_error ''Error logging PayPal payment failure:'' s
      | Some capture \<Rightarrow>
          if falsy (custom_id capture) then s
          else
            (case capture_amount capture of
               None \<Rightarrow> console_error ''Error logging PayPal payment failure:'' s
             | Some paid \<Rightarrow>
                 console_log (''PayPal payment failed: '' @ capture_id capture)
                   (s\<lparr>payment_logs := payment_logs s @
                      [\<lparr>log_user_id = (case custom_id capture of Some u \<Rightarrow> u | None \<Rightarrow> []),
                        log_provider = ''paypal'',
                        log_payment_id = capture_id capture,
                        log_status = ''failed'',
                        log_amount = amount_value paid,
                        log_currency = currency_code paid\<rparr>]\<rparr>)))"

text \<open>
  The route. Signature verification is an external call; its answer \<open>isValid\<close> is an
  input. The response is its status code and the JSON body's one member.
\<close>

datatype webhook_response = Received | Invalid_signature | Webhook_handler_failed

fun webhook_status :: "webhook_response \<Rightarrow> nat" where
  "webhook_status Received = 200"
| "webhook_status Invalid_signature = 400"
| "webhook_status Webhook_handler_failed = 500"

definition webhook_POST :: "bool \<Rightarrow> paypal_event \<Rightarrow> store \<Rightarrow> webhook_response \<times> store" where
  "webhook_POST isValid event s =
     (if \<not> isValid
      then (Invalid_signature, console_error ''PayPal webhook signature verification failed'' s)
      else if event_type event = ''PAYMENT.CAPTURE.COMPLETED''
      then (case handlePaymentCompleted event s of
              (Thrown, s') \<Rightarrow> (Webhook_handler_failed, console_error ''PayPal webhook error:'' s')
            | (_, s') \<Rightarrow> (Received, s'))
      else if event_type event = ''PAYMENT.CAPTURE.DENIED''
            \<or> event_type event = ''PAYMENT.CAPTURE.DECLINED''
      then (Received, handlePaymentFailed event s)
      else (Received, console_log (''Unhandled PayPal event: '' @ event_type event) s))"

text \<open>The same event delivered \<open>n\<close> times in a row.\<close>

fun deliver :: "nat \<Rightarrow> paypal_event \<Rightarrow> store \<Rightarrow> store" where
  "deliver 0 event s = s"
| "deliver (Suc n) event s = deliver n event (snd (webhook_POST True event s))"

section \<open>Batch route\<close>

text \<open>
  What the token check hands the routes: no bearer header, a token the provider rejects,
  or the verified user.
\<close>

datatype auth = No_bearer | Invalid_token | Verified string

definition CREDIT_COSTS :: "string \<Rightarrow> int option" where
  "CREDIT_COSTS =
     [''merge'' \<mapsto> 1,
      ''split'' \<mapsto> 1,
      ''compress'' \<mapsto> 1,
      ''convert'' \<mapsto> 2,
      ''watermark'' \<mapsto> 1,
      ''password_protect'' \<mapsto> 1,
      ''remove_password'' \<mapsto> 1,
      ''rotate'' \<mapsto> 1,
      ''extract_pages'' \<mapsto> 1,
      ''add_page_numbers'' \<mapsto> 1,
      ''ocr'' \<mapsto> 3]"

text \<open>
  The body of a submission: \<^verbatim>\<open>operation\<close> and \<^verbatim>\<open>files\<close> may be absent;
  \<^verbatim>\<open>options\<close> is stored as it comes and plays no part in what follows.
\<close>

record batch_request =
  req_operation :: "string option"
  req_files :: "string list option"

text \<open>
  \<open>creditCost\<close> is a product of numbers, or \<^verbatim>\<open>NaN\<close> when the operation names an
  inherited member. Every comparison with \<^verbatim>\<open>NaN\<close> is false, and the JSON encoding
  sends it as \<^verbatim>\<open>null\<close>.
\<close>

datatype js_number = Finite int | NaN

fun times_length :: "looked_up \<Rightarrow> nat \<Rightarrow> js_number" where
  "times_length (Number cost) n = Finite (cost * int n)"
| "times_length _ n = NaN"

fun less_than :: "int \<Rightarrow> js_number \<Rightarrow> bool" where
  "less_than balance (Finite c) = (balance < c)"
| "less_than balance NaN = False"

datatype batch_response =
    Batch_unauthorized string
  | Batch_bad_request string
  | Insufficient_credits js_number int
  | Batch_created batch_job js_number
  | Batch_failed

fun batch_status :: "batch_response \<Rightarrow> nat" where
  "batch_status (Batch_unauthorized _) = 401"
| "batch_status (Batch_bad_request _) = 400"
| "batch_status (Insufficient_credits required available) = 402"
| "batch_status (Batch_created job credits_used) = 200"
| "batch_status Batch_failed = 500"

text \<open>
  The route runs in two stretches. The first ends with the read of the balance and its
  comparison with the cost (up to the early return with status 402); it writes nothing.
  The second is everything from the insert of the job on. The route is the first
  followed by the second on the same store.
\<close>

datatype batch_checked =
    Respond batch_response
  | Proceed string string "string list" js_number

definition batch_check :: "auth \<Rightarrow> batch_request \<Rightarrow> store \<Rightarrow> batch_checked" where
  "batch_check a req s =
     (case a of
        No_bearer \<Rightarrow> Respond (Batch_unauthorized ''Unauthorized'')
      | Invalid_token \<Rightarrow> Respond (Batch_unauthorized ''Invalid token'')
      | Verified user \<Rightarrow>
          (case (req_operation req, req_files req) of
             (Some operation, Some files) \<Rightarrow>
               if operation = [] \<or> length files = 0
               then Respond (Batch_bad_request ''operation and files required'')
               else if get_property CREDIT_COSTS operation = Not_found
                       \<or> get_property CREDIT_COSTS operation = Number 0
               then Respond (Batch_bad_request ''Invalid operation.'')
               else
                 let creditCost = times_length (get_property CREDIT_COSTS operation) (length files);
                     balance = balance_of s user
                 in if less_than balance creditCost
                    then Respond (Insufficient_credits creditCost balance)
                    else Proceed user operation files creditCost
           | _ \<Rightarrow> Respond (Batch_bad_request ''operation and files required'')))"

text \<open>Decimal digits of a number, for the reason text of the deduction.\<close>

fun decimal :: "nat \<Rightarrow> string" where
  "decimal n =
     (if n < 10 then [char_of (48 + n)]
      else decimal (n div 10) @ [char_of (48 + n mod 10)])"

declare decimal.simps [simp del]

text \<open>
  The stored procedure \<^verbatim>\<open>deduct_credits\<close> is a parameter: a function of its three
  arguments on the store. The route does not look at what the call returns. The flag
  \<open>createError\<close> says that the insert of the job came back with an error, which the
  route throws. The id the store gives the new job is its position in the table.
\<close>

definition pending_job :: "store \<Rightarrow> string \<Rightarrow> string \<Rightarrow> string list \<Rightarrow> batch_job" where
  "pending_job s user operation files =
     \<lparr>job_id = length (batch_jobs s),
      job_user_id = user,
      job_operation = operation,
      job_status = ''pending'',
      job_files = map (\<lambda>f. \<lparr>input_url = f, file_status = ''pending''\<rparr>) files,
      job_progress = 0\<rparr>"

definition insert_job :: "batch_job \<Rightarrow> store \<Rightarrow> store" where
  "insert_job job s = s\<lparr>batch_jobs := batch_jobs s @ [job]\<rparr>"

definition enqueue_job :: "nat \<Rightarrow> store \<Rightarrow> store" where
  "enqueue_job job s =
     s\<lparr>job_queue := job_queue s @
        [\<lparr>queue_job_id = job, queue_job_type = ''batch_pdf'', queue_status = ''pending''\<rparr>]\<rparr>"

definition batch_reason :: "string \<Rightarrow> string list \<Rightarrow> string" where
  "batch_reason operation files =
     ''Batch '' @ operation @ '': '' @ decimal (length files) @ '' files''"

definition batch_commit ::
  "(string \<Rightarrow> js_number \<Rightarrow> string \<Rightarrow> store \<Rightarrow> store) \<Rightarrow> bool \<Rightarrow>
   string \<Rightarrow> string \<Rightarrow> string list \<Rightarrow> js_number \<Rightarrow> store \<Rightarrow> batch_response \<times> store" where
  "batch_commit deduct_credits createError user operation files creditCost s =
     (if createError then (Batch_failed, console_error ''Batch job error:'' s)
      else
        let createdJob = pending_job s user operation files;
            s1 = insert_job createdJob s;
            s2 = deduct_credits user creditCost (batch_reason operation files) s1;
            s3 = enqueue_job (job_id createdJob) s2
        in (Batch_created createdJob creditCost, s3))"

definition batch_POST ::
  "(string \<Rightarrow> js_number \<Rightarrow> string \<Rightarrow> store \<Rightarrow> store) \<Rightarrow> bool \<Rightarrow>
   auth \<Rightarrow> batch_request \<Rightarrow> store \<Rightarrow> batch_response \<times> store" where
  "batch_POST deduct_credits createError a req s =
     (case batch_check a req s of
        Respond r \<Rightarrow> (r, s)
      | Proceed user operation files creditCost \<Rightarrow>
          batch_commit deduct_credits createError user operation files creditCost s)"

section \<open>Credit deduction route\<close>

text \<open>
  The request body as \<^verbatim>\<open>request.json()\<close> returns it. A JSON number is the rational its
  double stands for; the route only compares it with 0 and 1000.
\<close>

datatype json =
    JNull
  | JBool bool
  | JNum rat
  | JStr string
  | JArr "json list"
  | JObj "(string \<times> json) list"

text \<open>
  \<^verbatim>\<open>const { amount, reason } = body\<close>: a member of an object is looked up among its own
  members; any other value but \<^verbatim>\<open>null\<close> has neither member (\<open>None\<close> is
  \<^verbatim>\<open>undefined\<close>).
\<close>

fun member_of :: "json \<Rightarrow> string \<Rightarrow> json option" where
  "member_of (JObj kvs) k = map_of kvs k"
| "member_of _ k = None"

fun truthy :: "json option \<Rightarrow> bool" where
  "truthy None = False"
| "truthy (Some JNull) = False"
| "truthy (Some (JBool b)) = b"
| "truthy (Some (JNum n)) = (n \<noteq> 0)"
| "truthy (Some (JStr t)) = (t \<noteq> [])"
| "truthy (Some (JArr _)) = True"
| "truthy (Some (JObj _)) = True"

text \<open>What \<^verbatim>\<open>deductCreditsAtomic\<close> resolves to: \<^verbatim>\<open>success\<close> true with the remaining
  balance, or false with the error, the remaining balance and the required amount.\<close>

datatype deduct_result =
    Deduct_success rat
  | Deduct_failure string rat rat

datatype deduct_response =
    Deduct_unauthorized string
  | Rate_limit_exceeded
  | Invalid_amount string
  | Payment_required string rat rat
  | Deducted rat rat
  | Internal_server_error

fun deduct_status :: "deduct_response \<Rightarrow> nat" where
  "deduct_status (Deduct_unauthorized _) = 401"
| "deduct_status Rate_limit_exceeded = 429"
| "deduct_status (Invalid_amount _) = 400"
| "deduct_status (Payment_required e remaining required) = 402"
| "deduct_status (Deducted remaining deducted) = 200"
| "deduct_status Internal_server_error = 500"

text \<open>
  \<^verbatim>\<open>deductCreditsAtomic\<close> is imported from a module that is not among the sources; it
  is a parameter: a function of the user, the amount and the reason on the store, which
  resolves to a result or throws (\<open>None\<close>). The body is \<open>None\<close> when
  \<^verbatim>\<open>request.json()\<close> throws. The state of the route is the rate-limit map of the
  process and the store.
\<close>

definition deduct_POST ::
  "(string \<Rightarrow> rat \<Rightarrow> json \<Rightarrow> store \<Rightarrow> deduct_result option \<times> store) \<Rightarrow>
   int \<Rightarrow> auth \<Rightarrow> json option \<Rightarrow> rate_map \<times> store \<Rightarrow>
   deduct_response \<times> rate_map \<times> store" where
  "deduct_POST deductCreditsAtomic now a body st =
     (case a of
        No_bearer \<Rightarrow> (Deduct_unauthorized ''Unauthorized - No auth token provided'', st)
      | Invalid_token \<Rightarrow> (Deduct_unauthorized ''Unauthorized - Invalid token'', st)
      | Verified user \<Rightarrow>
          let limits = snd (checkRateLimit now user (fst st)); s = snd st in
          if \<not> fst (checkRateLimit now user (fst st))
          then (Rate_limit_exceeded, limits, s)
          else
            (case body of
               None \<Rightarrow> (Internal_server_error, limits,
                         console_error ''Credit deduction error:'' s)
             | Some JNull \<Rightarrow> (Internal_server_error, limits,
                         console_error ''Credit deduction error:'' s)
             | Some b \<Rightarrow>
                 (case member_of b ''amount'' of
                    Some (JNum amount) \<Rightarrow>
                      if amount = 0 \<or> amount \<le> 0
                      then (Invalid_amount ''Invalid amount. Must be a positive number.'',
                            limits, s)
                      else if amount > 1000
                      then (Invalid_amount
                              ''Amount exceeds maximum (1000 credits per transaction)'',
                            limits, s)
                      else
                        (case deductCreditsAtomic user amount
                                (case member_of b ''reason'' of
                                   Some r \<Rightarrow> if truthy (Some r) then r else JStr ''Credit usage''
                                 | None \<Rightarrow> JStr ''Credit usage'') s of
                           (None, s') \<Rightarrow>
                             (Internal_server_error, limits,
                              console_error ''Credit deduction error:'' s')
                         | (Some (Deduct_failure e remaining required), s') \<Rightarrow>
                             (Payment_required e remaining required, limits, s')
                         | (Some (Deduct_success remaining), s') \<Rightarrow>
                             (Deducted remaining amount, limits, s'))
                  | _ \<Rightarrow> (Invalid_amount ''Invalid amount. Must be a positive number.'',
                          limits, s))))"

text \<open>
  The test the route applies to \<^verbatim>\<open>amount\<close>, in the claim's words: a number, greater
  than 0, at most 1000.
\<close>

definition acceptable_amount :: "json option \<Rightarrow> bool" where
  "acceptable_amount x = (case x of Some (JNum n) \<Rightarrow> 0 < n \<and> n \<le> 1000 | _ \<Rightarrow> False)"

section \<open>Two requests whose store calls alternate\<close>

text \<open>
  Every store call of a route is awaited, so between two of them the store calls of
  another request may run. Here two requests each finish their first stretch on the
  store as it is, and then run their second stretches one after the other.
\<close>

definition alternating_deliveries ::
  "paypal_event \<Rightarrow> paypal_event \<Rightarrow> store \<Rightarrow> (completion \<times> completion \<times> store) option" where
  "alternating_deliveries e1 e2 s =
     (case (get_current_credits e1 s, get_current_credits e2 s) of
        (Selected cap1 u1 p1 c1 cur1, Selected cap2 u2 p2 c2 cur2) \<Rightarrow>
          let (r1, s1) = update_credits cap1 u1 p1 c1 cur1 s;
              (r2, s2) = update_credits cap2 u2 p2 c2 cur2 s1
          in Some (r1, r2, s2)
      | _ \<Rightarrow> None)"

definition alternating_submissions ::
  "(string \<Rightarrow> js_number \<Rightarrow> string \<Rightarrow> store \<Rightarrow> store) \<Rightarrow>
   auth \<Rightarrow> batch_request \<Rightarrow> auth \<Rightarrow> batch_request \<Rightarrow> store \<Rightarrow>
   (batch_response \<times> batch_response \<times> store) option" where
  "alternating_submissions deduct_credits a1 req1 a2 req2 s =
     (case (batch_check a1 req1 s, batch_check a2 req2 s) of
        (Proceed u1 op1 fs1 cost1, Proceed u2 op2 fs2 cost2) \<Rightarrow>
          let (r1, s1) = batch_commit deduct_credits False u1 op1 fs1 cost1 s;
              (r2, s2) = batch_commit deduct_credits False u2 op2 fs2 cost2 s1
          in Some (r1, r2, s2)
      | _ \<Rightarrow> None)"

section \<open>Credit ledger\<close>

text \<open>
  Modelled from the spec: the ledger operations \<^verbatim>\<open>reserve\<close>, \<^verbatim>\<open>credit\<close> and
  \<^verbatim>\<open>reconcile\<close> of the spec's section 4.1, and the stored procedure
  \<^verbatim>\<open>deduct_credits\<close> the batch route calls, are not among the sources. The spec:
  reserve "atomically checks balance >= amount, writes a LedgerEntry with delta = -amount,
  decrements balance"; "if idempotency_key already has an entry, returns that entry's
  outcome instead of re-applying"; credit has the "same idempotency discipline; delta =
  +amount; no balance floor check"; reconcile, "if actual < reserved, credits back the
  difference (refund) via the same atomic path as credit; if actual > reserved [...] it
  is logged as an anomaly and not silently charged further". The account reconcile
  refunds is the job's account, passed with the job id.
\<close>

datatype ledger_result =
    Ledger_ok int
  | InsufficientFunds int int
  | AlreadyApplied credit_transaction

text \<open>
  Modelled from the spec: the lookup of an idempotency key among the ledger entries, and
  the one write that appends an entry and changes the balance by its delta ("every
  change is attributable to exactly one LedgerEntry").
\<close>

definition entry_with_key :: "store \<Rightarrow> string \<Rightarrow> credit_transaction option" where
  "entry_with_key s key = find (\<lambda>t. txn_key t = Some key) (credit_transactions s)"

definition post_entry :: "string \<Rightarrow> int \<Rightarrow> string \<Rightarrow> string option \<Rightarrow> store \<Rightarrow> store" where
  "post_entry account_id delta reason key s =
     s\<lparr>user_credits := (user_credits s)(account_id \<mapsto> balance_of s account_id + delta),
       credit_transactions := credit_transactions s @
         [\<lparr>txn_user_id = account_id, txn_amount = delta, txn_reason = reason,
           txn_metadata = None, txn_key = key\<rparr>]\<rparr>"

text \<open>
  Modelled from the spec: the check and the decrement of reserve, then reserve, credit
  and reconcile with their idempotency discipline.
\<close>

definition debit ::
  "string \<Rightarrow> int \<Rightarrow> string \<Rightarrow> string option \<Rightarrow> store \<Rightarrow> ledger_result \<times> store" where
  "debit account_id amount reason key s =
     (if balance_of s account_id \<ge> amount
      then (Ledger_ok (balance_of s account_id - amount),
            post_entry account_id (- amount) reason key s)
      else (InsufficientFunds (balance_of s account_id) amount, s))"

definition reserve ::
  "string \<Rightarrow> int \<Rightarrow> string \<Rightarrow> string \<Rightarrow> store \<Rightarrow> ledger_result \<times> store" where
  "reserve account_id amount key reason s =
     (case entry_with_key s key of
        Some e \<Rightarrow> (AlreadyApplied e, s)
      | None \<Rightarrow> debit account_id amount reason (Some key) s)"

definition credit ::
  "string \<Rightarrow> int \<Rightarrow> string \<Rightarrow> string \<Rightarrow> store \<Rightarrow> ledger_result \<times> store" where
  "credit account_id amount key reason s =
     (case entry_with_key s key of
        Some e \<Rightarrow> (AlreadyApplied e, s)
      | None \<Rightarrow> (Ledger_ok (balance_of s account_id + amount),
                 post_entry account_id amount reason (Some key) s))"

definition reconcile ::
  "string \<Rightarrow> nat \<Rightarrow> int \<Rightarrow> int \<Rightarrow> string \<Rightarrow> store \<Rightarrow> int \<times> store" where
  "reconcile account_id job reserved actual key s =
     (if actual < reserved
      then (case credit account_id (reserved - actual) key ''refund'' s of
              (AlreadyApplied e, s') \<Rightarrow> (txn_amount e, s')
            | (_, s') \<Rightarrow> (reserved - actual, s'))
      else if actual > reserved
      then (0, console_error ''Reconciliation anomaly: actual exceeds reserved'' s)
      else (0, s))"

text \<open>
  Modelled from the spec: the stored procedure \<^verbatim>\<open>deduct_credits\<close>, as the spec's
  reserve on a call that carries no idempotency key. A call without an amount (the
  \<^verbatim>\<open>null\<close> sent for \<^verbatim>\<open>NaN\<close>) changes nothing: the spec requires amount > 0.
\<close>

fun spec_deduct_credits :: "string \<Rightarrow> js_number \<Rightarrow> string \<Rightarrow> store \<Rightarrow> store" where
  "spec_deduct_credits p_user_id (Finite p_amount) p_reason s =
     snd (debit p_user_id p_amount p_reason None s)"
| "spec_deduct_credits p_user_id NaN p_reason s = s"

text \<open>
  Modelled from the spec: \<^verbatim>\<open>deductCreditsAtomic\<close>, which the deduction route
  imports from a module that is not among the sources, as the spec's reserve on a call
  that carries no idempotency key. The spec's ledger takes an "amount (positive
  integer)": an amount that is not an integer is refused and changes nothing. The
  result carries the remaining balance and, on refusal, the required amount, which the
  route reads. A reason that is not a string is not kept.
\<close>

definition spec_deductCreditsAtomic ::
  "string \<Rightarrow> rat \<Rightarrow> json \<Rightarrow> store \<Rightarrow> deduct_result option \<times> store" where
  "spec_deductCreditsAtomic userId amount reason s =
     (if snd (quotient_of amount) \<noteq> 1
      then (Some (Deduct_failure ''Invalid amount'' (of_int (balance_of s userId)) amount), s)
      else
        (case debit userId (fst (quotient_of amount))
                (case reason of JStr t \<Rightarrow> t | _ \<Rightarrow> []) None s of
           (Ledger_ok remaining, s') \<Rightarrow> (Some (Deduct_success (of_int remaining)), s')
         | (InsufficientFunds balance required, s') \<Rightarrow>
             (Some (Deduct_failure ''Insufficient credits'' (of_int balance) (of_int required)),
              s')
         | (AlreadyApplied e, s') \<Rightarrow>
             (Some (Deduct_success (of_int (balance_of s' userId))), s')))"

text \<open>
  The calls that change the balance: the three ledger operations, a submission to the
  batch route with the stored procedure above, and a request to the deduction route with
  \<^verbatim>\<open>deductCreditsAtomic\<close> as above, at a time and on the rate-limit map of the
  process. A ledger call is well formed when its amount is positive, as the spec
  requires of the callers; the two routes take any request.
\<close>

datatype ledger_call =
    Reserve string int string string
  | Credit string int string string
  | Reconcile string nat int int string
  | Batch_submission bool auth batch_request
  | Deduction_request int auth "json option"

fun apply_call :: "ledger_call \<Rightarrow> rate_map \<times> store \<Rightarrow> rate_map \<times> store" where
  "apply_call (Reserve account_id amount key reason) (limits, s) =
     (limits, snd (reserve account_id amount key reason s))"
| "apply_call (Credit account_id amount key reason) (limits, s) =
     (limits, snd (credit account_id amount key reason s))"
| "apply_call (Reconcile account_id job reserved actual key) (limits, s) =
     (limits, snd (reconcile account_id job reserved actual key s))"
| "apply_call (Batch_submission createError a req) (limits, s) =
     (limits, snd (batch_POST spec_deduct_credits createError a req s))"
| "apply_call (Deduction_request now a body) (limits, s) =
     snd (deduct_POST spec_deductCreditsAtomic now a body (limits, s))"

fun apply_calls :: "ledger_call list \<Rightarrow> rate_map \<times> store \<Rightarrow> rate_map \<times> store" where
  "apply_calls [] st = st"
| "apply_calls (c # cs) st = apply_calls cs (apply_call c st)"

fun well_formed :: "ledger_call \<Rightarrow> bool" where
  "well_formed (Reserve account_id amount key reason) = (0 < amount)"
| "well_formed (Credit account_id amount key reason) = (0 < amount)"
| "well_formed _ = True"

text \<open>A store with no rows, and the event of the spec's example.\<close>

definition empty_store :: store where
  "empty_store =
     \<lparr>user_credits = Map.empty, credit_transactions = [], receipts = [],
      payment_logs = [], batch_jobs = [], job_queue = [], console = []\<rparr>"

definition completed_event :: "string \<Rightarrow> string \<Rightarrow> string \<Rightarrow> paypal_event" where
  "completed_event capture user plan =
     \<lparr>event_type = ''PAYMENT.CAPTURE.COMPLETED'',
      resource = Some \<lparr>custom_id = Some user, invoice_id = Some plan, capture_id = capture,
                       capture_amount = Some \<lparr>amount_value = ''9.99'', currency_code = ''USD''\<rparr>\<rparr>\<rparr>"

text \<open>
  A run of calls on one account, for the store with no rows: a credit of 100, a batch
  submission (ocr, two files), deduction requests of 50, of 1000 and of one half, and
  reservations and a reconciliation.
\<close>

definition some_calls :: "ledger_call list" where
  "some_calls =
     [Credit ''user_1'' 100 ''cap_1'' ''purchase'',
      Batch_submission False (Verified ''user_1'')
        \<lparr>req_operation = Some ''ocr'', req_files = Some [''a.pdf'', ''b.pdf'']\<rparr>,
      Deduction_request 0 (Verified ''user_1'') (Some (JObj [(''amount'', JNum 50)])),
      Deduction_request 1 (Verified ''user_1'') (Some (JObj [(''amount'', JNum 1000)])),
      Deduction_request 2 (Verified ''user_1'') (Some (JObj [(''amount'', JNum (1 / 2))])),
      Reserve ''user_1'' 200 ''job-7'' ''too much'',
      Reserve ''user_1'' 40 ''job-8'' ''batch'',
      Reserve ''user_1'' 40 ''job-8'' ''batch'',
      Reconcile ''user_1'' 8 40 30 ''job-8-reconcile'']"

text \<open>Eleven calls in the window a call by \<open>ann\<close> at time 0 opens, ten of them hers.\<close>

definition ten_more :: "(string \<times> int) list" where
  "ten_more =
     [(''ann'', 5), (''bob'', 6), (''ann'', 7), (''ann'', 8), (''ann'', 9), (''ann'', 10),
      (''ann'', 11), (''ann'', 12), (''ann'', 13), (''ann'', 60000), (''ann'', 60000)]"

section \<open>Properties of the rate limiter\<close>

lemma checkRateLimit_opens:
  "opens_window m u t \<Longrightarrow>
   checkRateLimit t u m = (True, m(u \<mapsto> \<lparr>count = 1, resetAt = t + RATE_WINDOW\<rparr>))"
  by (auto simp: opens_window_def checkRateLimit_def split: option.splits)

lemma checkRateLimit_other:
  "v \<noteq> u \<Longrightarrow> snd (checkRateLimit t v m) u = m u"
  by (simp add: checkRateLimit_def split: option.splits)

lemma fst_run_calls_Cons:
  "fst (run_calls ((v, t) # cs) m) =
     (v, fst (checkRateLimit t v m)) # fst (run_calls cs (snd (checkRateLimit t v m)))"
  by (simp add: split_beta)

lemma in_window_answers:
  "m u = Some e \<Longrightarrow> (\<forall>p \<in> set cs. fst p = u \<longrightarrow> snd p \<le> resetAt e) \<Longrightarrow>
   answers_for u (fst (run_calls cs m)) =
     replicate (min (calls_of u cs) (RATE_LIMIT - count e)) True @
     replicate (calls_of u cs - (RATE_LIMIT - count e)) False"
proof (induction cs arbitrary: m e)
  case Nil
  then show ?case by (simp add: answers_for_def calls_of_def)
next
  case (Cons c cs)
  obtain v t where c: "c = (v, t)" by (cases c)
  show ?case
  proof (cases "v = u")
    case False
    have same: "snd (checkRateLimit t v m) u = Some e"
      using False Cons.prems(1) by (simp add: checkRateLimit_other)
    have later: "\<forall>p \<in> set cs. fst p = u \<longrightarrow> snd p \<le> resetAt e"
      using Cons.prems(2) by simp
    from Cons.IH[of "snd (checkRateLimit t v m)" e, OF same later] False c
    show ?thesis
      by (simp add: answers_for_def calls_of_def fst_run_calls_Cons del: run_calls.simps)
  next
    case True
    have t: "t \<le> resetAt e" using Cons.prems(2) c True by simp
    show ?thesis
    proof (cases "count e \<ge> RATE_LIMIT")
      case full: True
      have step: "checkRateLimit t u m = (False, m)"
        using Cons.prems(1) t full by (simp add: checkRateLimit_def)
      have later: "\<forall>p \<in> set cs. fst p = u \<longrightarrow> snd p \<le> resetAt e"
        using Cons.prems(2) by simp
      from Cons.IH[of m e, OF Cons.prems(1) later] full
      have "answers_for u (fst (run_calls cs m)) = replicate (calls_of u cs) False"
        by simp
      then show ?thesis using step c True full
        by (simp add: answers_for_def calls_of_def fst_run_calls_Cons del: run_calls.simps)
    next
      case room: False
      let ?e' = "e\<lparr>count := count e + 1\<rparr>"
      have step: "checkRateLimit t u m = (True, m(u \<mapsto> ?e'))"
        using Cons.prems(1) t room by (simp add: checkRateLimit_def)
      have upd: "(m(u \<mapsto> ?e')) u = Some ?e'" by simp
      have later: "\<forall>p \<in> set cs. fst p = u \<longrightarrow> snd p \<le> resetAt ?e'"
        using Cons.prems(2) by simp
      note ih = Cons.IH[of "m(u \<mapsto> ?e')" ?e', OF upd later]
      have n: "calls_of u (c # cs) = Suc (calls_of u cs)"
        using c True by (simp add: calls_of_def)
      obtain k where k: "RATE_LIMIT - count e = Suc k" "RATE_LIMIT - count ?e' = k"
        using room by (cases "RATE_LIMIT - count e") auto
      have ih': "answers_for u (fst (run_calls cs (m(u \<mapsto> ?e')))) =
          replicate (min (calls_of u cs) k) True @ replicate (calls_of u cs - k) False"
        using ih by (simp only: k(2))
      have first: "answers_for u (fst (run_calls (c # cs) m)) =
            True # answers_for u (fst (run_calls cs (m(u \<mapsto> ?e'))))"
        using step c True by (simp add: answers_for_def fst_run_calls_Cons del: run_calls.simps)
      show ?thesis unfolding first ih' n k(1) by simp
    qed
  qed
qed


lemma snd_run_calls_Cons:
  "snd (run_calls ((v, t) # cs) m) = snd (run_calls cs (snd (checkRateLimit t v m)))"
  by (simp add: split_beta)

lemma in_window_resetAt:
  "m u = Some e \<Longrightarrow> (\<forall>p \<in> set cs. fst p = u \<longrightarrow> snd p \<le> resetAt e) \<Longrightarrow>
   \<exists>e'. snd (run_calls cs m) u = Some e' \<and> resetAt e' = resetAt e"
proof (induction cs arbitrary: m e)
  case Nil
  then show ?case by simp
next
  case (Cons c cs)
  obtain v t where c: "c = (v, t)" by (cases c)
  have later: "\<forall>p \<in> set cs. fst p = u \<longrightarrow> snd p \<le> resetAt e"
    using Cons.prems(2) by simp
  have "\<exists>e1. snd (checkRateLimit t v m) u = Some e1 \<and> resetAt e1 = resetAt e"
  proof (cases "v = u")
    case False
    then show ?thesis using Cons.prems(1) by (simp add: checkRateLimit_other)
  next
    case True
    have "t \<le> resetAt e" using Cons.prems(2) c True by simp
    then show ?thesis using Cons.prems(1) True by (simp add: checkRateLimit_def)
  qed
  then obtain e1 where e1: "snd (checkRateLimit t v m) u = Some e1" "resetAt e1 = resetAt e"
    by blast
  have later1: "\<forall>p \<in> set cs. fst p = u \<longrightarrow> snd p \<le> resetAt e1"
    using later e1(2) by simp
  from Cons.IH[of "snd (checkRateLimit t v m)" e1, OF e1(1) later1] e1(2)
  show ?case unfolding c snd_run_calls_Cons by simp
qed

text \<open>
  Claim C9. A call that finds no entry for the identity, or an entry whose reset time has
  passed, is admitted and opens a window of 60000 ms with counter 1. Of the calls the
  identity makes up to the reset time of that window (calls by others in between change
  nothing), the opening call and the next nine are admitted and every later one is
  refused: the 11th call returns false. The first call after the reset time is admitted
  and opens a new window with counter 1.
\<close>

theorem rate_limit_fixed_window:
  assumes "opens_window m u t0"
      and "\<forall>p \<in> set cs. fst p = u \<longrightarrow> snd p \<le> t0 + RATE_WINDOW"
  shows "RATE_LIMIT = 10 \<and> RATE_WINDOW = 60000 \<and>
         checkRateLimit t0 u m = (True, m(u \<mapsto> \<lparr>count = 1, resetAt = t0 + RATE_WINDOW\<rparr>)) \<and>
         answers_for u (fst (run_calls ((u, t0) # cs) m)) =
           replicate (min (Suc (calls_of u cs)) RATE_LIMIT) True @
           replicate (Suc (calls_of u cs) - RATE_LIMIT) False \<and>
         (\<forall>t. t0 + RATE_WINDOW < t \<longrightarrow>
            checkRateLimit t u (snd (run_calls ((u, t0) # cs) m)) =
              (True, (snd (run_calls ((u, t0) # cs) m))
                       (u \<mapsto> \<lparr>count = 1, resetAt = t + RATE_WINDOW\<rparr>)))"
proof -
  let ?e = "\<lparr>count = 1, resetAt = t0 + RATE_WINDOW\<rparr>"
  let ?m1 = "m(u \<mapsto> ?e)"
  have first: "checkRateLimit t0 u m = (True, ?m1)"
    using assms(1) by (rule checkRateLimit_opens)
  have m1: "?m1 u = Some ?e" by simp
  have later: "\<forall>p \<in> set cs. fst p = u \<longrightarrow> snd p \<le> resetAt ?e"
    using assms(2) by simp
  have rest: "answers_for u (fst (run_calls cs ?m1)) =
      replicate (min (calls_of u cs) (RATE_LIMIT - count ?e)) True @
      replicate (calls_of u cs - (RATE_LIMIT - count ?e)) False"
    by (rule in_window_answers[where m = ?m1 and e = ?e, OF m1 later])
  have answers: "answers_for u (fst (run_calls ((u, t0) # cs) m)) =
      True # answers_for u (fst (run_calls cs ?m1))"
    unfolding fst_run_calls_Cons first by (simp add: answers_for_def)
  have a: "answers_for u (fst (run_calls ((u, t0) # cs) m)) =
           replicate (min (Suc (calls_of u cs)) RATE_LIMIT) True @
           replicate (Suc (calls_of u cs) - RATE_LIMIT) False"
    unfolding answers rest by (simp add: RATE_LIMIT_def)
  obtain e' where e': "snd (run_calls cs ?m1) u = Some e'" "resetAt e' = resetAt ?e"
    using in_window_resetAt[where m = ?m1 and e = ?e, OF m1 later] by blast
  have final: "snd (run_calls ((u, t0) # cs) m) = snd (run_calls cs ?m1)"
    unfolding snd_run_calls_Cons first by simp
  have b: "\<forall>t. t0 + RATE_WINDOW < t \<longrightarrow>
            checkRateLimit t u (snd (run_calls ((u, t0) # cs) m)) =
              (True, (snd (run_calls ((u, t0) # cs) m))
                       (u \<mapsto> \<lparr>count = 1, resetAt = t + RATE_WINDOW\<rparr>))"
  proof (intro allI impI)
    fix t assume "t0 + RATE_WINDOW < t"
    then have "opens_window (snd (run_calls cs ?m1)) u t"
      using e' by (simp add: opens_window_def)
    then show "checkRateLimit t u (snd (run_calls ((u, t0) # cs) m)) =
              (True, (snd (run_calls ((u, t0) # cs) m))
                       (u \<mapsto> \<lparr>count = 1, resetAt = t + RATE_WINDOW\<rparr>))"
      unfolding final by (rule checkRateLimit_opens)
  qed
  show ?thesis using first a b by (simp add: RATE_LIMIT_def RATE_WINDOW_def)
qed

theorem rate_limit_fixed_window_witness:
  "opens_window Map.empty ''ann'' 0 \<and>
   list_all (\<lambda>p. fst p \<noteq> ''ann'' \<or> snd p \<le> 0 + RATE_WINDOW) ten_more \<and>
   answers_for ''ann'' (fst (run_calls ((''ann'', 0) # ten_more) Map.empty)) =
     [True, True, True, True, True, True, True, True, True, True, False] \<and>
   fst (checkRateLimit 60001 ''ann'' (snd (run_calls ((''ann'', 0) # ten_more) Map.empty)))"
proof -
  have h1: "opens_window Map.empty ''ann'' 0" by (simp add: opens_window_def)
  have h2: "\<forall>p \<in> set ten_more. fst p = ''ann'' \<longrightarrow> snd p \<le> 0 + RATE_WINDOW"
    by (simp add: ten_more_def RATE_WINDOW_def)
  have n: "calls_of ''ann'' ten_more = 10" by (simp add: calls_of_def ten_more_def)
  have l: "list_all (\<lambda>p. fst p \<noteq> ''ann'' \<or> snd p \<le> 0 + RATE_WINDOW) ten_more"
    by (simp add: ten_more_def RATE_WINDOW_def)
  note th = rate_limit_fixed_window[OF h1 h2]
  have shape: "replicate (min (Suc 10) 10) True @ replicate (Suc 10 - 10) False =
     [True, True, True, True, True, True, True, True, True, True, False]"
    by code_simp
  have a: "answers_for ''ann'' (fst (run_calls ((''ann'', 0) # ten_more) Map.empty)) =
     [True, True, True, True, True, True, True, True, True, True, False]"
    using th shape by (simp only: n RATE_LIMIT_def)
  have "0 + RATE_WINDOW < (60001 :: int)" by (simp add: RATE_WINDOW_def)
  with th have b: "fst (checkRateLimit 60001 ''ann'' (snd (run_calls ((''ann'', 0) # ten_more) Map.empty)))"
    by (metis fst_conv)
  note a b
  then show ?thesis using h1 l by simp
qed

section \<open>Properties of the webhook route\<close>

lemma CREDIT_PACKAGES_positive: "CREDIT_PACKAGES p = Some k \<Longrightarrow> 0 < k"
  by (auto simp: CREDIT_PACKAGES_def split: if_splits)

lemma get_property_Number: "table k = Some v \<Longrightarrow> get_property table k = Number v"
  by (simp add: get_property_def)

lemma get_current_credits_rejects:
  assumes "\<forall>c. resource event = Some c \<longrightarrow>
             custom_id c = None \<or> custom_id c = Some [] \<or> invoice_id c = None \<or>
             (\<exists>p. invoice_id c = Some p \<and> get_property CREDIT_PACKAGES p = Not_found)"
  shows "\<exists>r msg. r \<noteq> Returned_credited \<and>
           get_current_credits event s = Return_early r (console_error msg s)"
proof (cases "resource event")
  case None
  then show ?thesis by (auto simp: get_current_credits_def)
next
  case (Some c)
  with assms have "custom_id c = None \<or> custom_id c = Some [] \<or> invoice_id c = None \<or>
             (\<exists>p. invoice_id c = Some p \<and> get_property CREDIT_PACKAGES p = Not_found)" by simp
  then show ?thesis using Some
    by (auto simp: get_current_credits_def falsy_def Let_def split: option.splits)
qed

text \<open>
  A completed-payment event whose payload has no resource, no (or an empty) account
  identifier, no plan identifier, or a plan identifier under which a read of the
  credit-package table finds nothing, is not credited: the handler ends at an early
  return or throws, the route appends console error lines and nothing else.
\<close>

lemma unlisted_plan_rejected:
  assumes "event_type event = ''PAYMENT.CAPTURE.COMPLETED''"
      and "\<forall>c. resource event = Some c \<longrightarrow>
             custom_id c = None \<or> custom_id c = Some [] \<or> invoice_id c = None \<or>
             (\<exists>p. invoice_id c = Some p \<and> get_property CREDIT_PACKAGES p = Not_found)"
  shows "fst (handlePaymentCompleted event s) \<noteq> Returned_credited \<and>
         (\<exists>msgs. msgs \<noteq> [] \<and>
            snd (webhook_POST True event s) = s\<lparr>console := console s @ map ConsoleError msgs\<rparr>) \<and>
         credit_transactions (snd (webhook_POST True event s)) = credit_transactions s \<and>
         user_credits (snd (webhook_POST True event s)) = user_credits s"
proof -
  obtain r msg where r: "r \<noteq> Returned_credited"
      "get_current_credits event s = Return_early r (console_error msg s)"
    using get_current_credits_rejects[OF assms(2)] by blast
  have h: "handlePaymentCompleted event s = (r, console_error msg s)"
    using r(2) by (simp add: handlePaymentCompleted_def)
  have "\<exists>msgs. msgs \<noteq> [] \<and>
            snd (webhook_POST True event s) = s\<lparr>console := console s @ map ConsoleError msgs\<rparr>"
  proof (cases "r = Thrown")
    case True
    then have "snd (webhook_POST True event s) =
        s\<lparr>console := console s @ map ConsoleError [msg, ''PayPal webhook error:'']\<rparr>"
      using assms(1) h by (simp add: webhook_POST_def console_error_def)
    then show ?thesis by blast
  next
    case False
    then have "snd (webhook_POST True event s) = s\<lparr>console := console s @ map ConsoleError [msg]\<rparr>"
      using assms(1) h by (cases r) (simp_all add: webhook_POST_def console_error_def)
    then show ?thesis by blast
  qed
  then show ?thesis using h r(1) by auto
qed

text \<open>
  Claim C6 at the plan identifier \<open>constructor\<close>, which is not a key of the
  credit-package table: the read of the table finds the function every object inherits
  under that name, the handler does not take its unknown-plan return and runs to its
  end, the route answers 200, and the console holds the line that credits were added
  and no error line. The two refused writes leave the ledger and the balance as they
  were.
\<close>

theorem inherited_plan_not_rejected:
  "CREDIT_PACKAGES ''constructor'' = None \<and>
   get_property CREDIT_PACKAGES ''constructor'' = A_function \<and>
   fst (handlePaymentCompleted (completed_event ''cap_9'' ''user_1'' ''constructor'') empty_store)
     = Returned_credited \<and>
   fst (webhook_POST True (completed_event ''cap_9'' ''user_1'' ''constructor'') empty_store)
     = Received \<and>
   console
     (snd (webhook_POST True (completed_event ''cap_9'' ''user_1'' ''constructor'') empty_store))
     = [ConsoleLog ''PayPal: Credits added for user user_1''] \<and>
   credit_transactions
     (snd (webhook_POST True (completed_event ''cap_9'' ''user_1'' ''constructor'') empty_store))
     = [] \<and>
   balance_of
     (snd (webhook_POST True (completed_event ''cap_9'' ''user_1'' ''constructor'') empty_store))
     ''user_1'' = 0"
  by (simp add: webhook_POST_def handlePaymentCompleted_def get_current_credits_def
      update_credits_def completed_event_def CREDIT_PACKAGES_def get_property_def
      Object_prototype_functions_def falsy_def console_log_def empty_store_def
      balance_of_def Let_def)

text \<open>
  Claim C5 fails as stated: the event with plan id \<open>MYSTERY_PLAN\<close> ends at the
  unknown-plan return of the handler, and the route answers it with status 200.
\<close>

theorem webhook_rejection_acknowledged:
  "fst (handlePaymentCompleted (completed_event ''cap_9'' ''user_1'' ''MYSTERY_PLAN'') empty_store)
     = Returned_unknown_plan \<and>
   webhook_status
     (fst (webhook_POST True (completed_event ''cap_9'' ''user_1'' ''MYSTERY_PLAN'') empty_store)) = 200"
  by (simp add: webhook_POST_def handlePaymentCompleted_def get_current_credits_def
      completed_event_def CREDIT_PACKAGES_def get_property_def Object_prototype_functions_def
      falsy_def console_error_def)

text \<open>
  Claim C5, amended. The route answers 400 exactly when the signature check fails, 500
  exactly when the signature is valid and the completed-payment handler throws, and 200
  in every other case, which includes the completed-payment events the handler turns
  down for a missing identifier or an unknown plan.
\<close>

theorem webhook_status_cases:
  "webhook_status (fst (webhook_POST isValid event s)) =
     (if \<not> isValid then 400
      else if event_type event = ''PAYMENT.CAPTURE.COMPLETED''
              \<and> fst (handlePaymentCompleted event s) = Thrown then 500
      else 200)"
  by (cases "handlePaymentCompleted event s"; cases "fst (handlePaymentCompleted event s)")
     (auto simp: webhook_POST_def)

lemma CREDIT_PACKAGES_nonempty: "CREDIT_PACKAGES p = Some k \<Longrightarrow> p \<noteq> []"
  by (auto simp: CREDIT_PACKAGES_def split: if_splits)

lemma delivery_credits_once:
  assumes "event_type event = ''PAYMENT.CAPTURE.COMPLETED''"
      and "resource event = Some c"
      and "custom_id c = Some user" and "user \<noteq> []"
      and "invoice_id c = Some plan" and "CREDIT_PACKAGES plan = Some k"
      and "capture_amount c = Some paid"
  shows "fst (webhook_POST True event s) = Received"
    and "user_credits (snd (webhook_POST True event s)) =
           (user_credits s)(user \<mapsto> balance_of s user + k)"
    and "credit_transactions (snd (webhook_POST True event s)) =
           credit_transactions s @
             [\<lparr>txn_user_id = user, txn_amount = k,
               txn_reason = ''PayPal purchase: '' @ capture_id c,
               txn_metadata = Some \<lparr>meta_capture_id = capture_id c,
                                    meta_amount_paid = amount_value paid,
                                    meta_currency = currency_code paid,
                                    meta_plan_id = plan\<rparr>,
               txn_key = None\<rparr>]"
proof -
  have k: "k \<noteq> 0" and p: "plan \<noteq> []"
    using assms(6) CREDIT_PACKAGES_positive CREDIT_PACKAGES_nonempty by fastforce+
  have sel: "get_current_credits event s = Selected c user plan (Number k) (balance_of s user)"
    using assms k p by (simp add: get_current_credits_def falsy_def get_property_Number)
  have h: "handlePaymentCompleted event s =
           update_credits c user plan (Number k) (balance_of s user) s"
    using sel by (simp add: handlePaymentCompleted_def)
  have u: "fst (update_credits c user plan (Number k) (balance_of s user) s) = Returned_credited"
    using assms(7) by (simp add: update_credits_def Let_def)
  have post: "webhook_POST True event s =
              (Received, snd (update_credits c user plan (Number k) (balance_of s user) s))"
    using assms(1) h u
    by (cases "update_credits c user plan (Number k) (balance_of s user) s")
       (simp add: webhook_POST_def)
  show "fst (webhook_POST True event s) = Received" using post by simp
  show "user_credits (snd (webhook_POST True event s)) =
           (user_credits s)(user \<mapsto> balance_of s user + k)"
    unfolding post using assms(7) by (simp add: update_credits_def Let_def console_log_def)
  show "credit_transactions (snd (webhook_POST True event s)) =
           credit_transactions s @
             [\<lparr>txn_user_id = user, txn_amount = k,
               txn_reason = ''PayPal purchase: '' @ capture_id c,
               txn_metadata = Some \<lparr>meta_capture_id = capture_id c,
                                    meta_amount_paid = amount_value paid,
                                    meta_currency = currency_code paid,
                                    meta_plan_id = plan\<rparr>,
               txn_key = None\<rparr>]"
    unfolding post using assms(7) by (simp add: update_credits_def Let_def console_log_def)
qed

lemma deliver_many:
  assumes "event_type event = ''PAYMENT.CAPTURE.COMPLETED''"
      and "resource event = Some c"
      and "custom_id c = Some user" and "user \<noteq> []"
      and "invoice_id c = Some plan" and "CREDIT_PACKAGES plan = Some k"
      and "capture_amount c = Some paid"
  shows "balance_of (deliver n event s) user = balance_of s user + int n * k \<and>
         credit_transactions (deliver n event s) =
           credit_transactions s @
             replicate n
               \<lparr>txn_user_id = user, txn_amount = k,
                txn_reason = ''PayPal purchase: '' @ capture_id c,
                txn_metadata = Some \<lparr>meta_capture_id = capture_id c,
                                     meta_amount_paid = amount_value paid,
                                     meta_currency = currency_code paid,
                                     meta_plan_id = plan\<rparr>,
                txn_key = None\<rparr>"
proof (induction n arbitrary: s)
  case 0
  show ?case by simp
next
  case (Suc n)
  let ?s1 = "snd (webhook_POST True event s)"
  note once = delivery_credits_once[OF assms, of s]
  have b: "balance_of ?s1 user = balance_of s user + k"
    using once(2) by (simp add: balance_of_def)
  show ?case
    using Suc.IH[of ?s1] b once(3)
    by (simp add: algebra_simps replicate_append_same)
qed

text \<open>
  Claim C1, amended. The route keeps no record of the capture ids it has seen. Every
  delivery of a completed-payment event with an account identifier, a plan of the table
  and an amount adds the plan's credits to the balance and appends one ledger entry:
  \<open>n\<close> deliveries of the same event raise the balance by \<open>n\<close> times the credits and
  append \<open>n\<close> equal entries.
\<close>

theorem every_delivery_credits:
  assumes "event_type event = ''PAYMENT.CAPTURE.COMPLETED''"
      and "resource event = Some c"
      and "custom_id c = Some user" and "user \<noteq> []"
      and "invoice_id c = Some plan" and "CREDIT_PACKAGES plan = Some k"
      and "capture_amount c = Some paid"
  shows "balance_of (deliver n event s) user = balance_of s user + int n * k \<and>
         credit_transactions (deliver n event s) =
           credit_transactions s @
             replicate n
               \<lparr>txn_user_id = user, txn_amount = k,
                txn_reason = ''PayPal purchase: '' @ capture_id c,
                txn_metadata = Some \<lparr>meta_capture_id = capture_id c,
                                     meta_amount_paid = amount_value paid,
                                     meta_currency = currency_code paid,
                                     meta_plan_id = plan\<rparr>,
                txn_key = None\<rparr>"
  using assms by (rule deliver_many)

text \<open>Two deliveries of one \<open>PRO_PLAN\<close> capture.\<close>

theorem every_delivery_credits_witness:
  "CREDIT_PACKAGES ''PRO_PLAN'' = Some 500 \<and>
   balance_of (deliver 2 (completed_event ''cap_7'' ''user_2'' ''PRO_PLAN'') empty_store) ''user_2''
     = 1000 \<and>
   map txn_amount
     (credit_transactions (deliver 2 (completed_event ''cap_7'' ''user_2'' ''PRO_PLAN'') empty_store))
     = [500, 500]"
proof -
  let ?paid = "\<lparr>amount_value = ''9.99'', currency_code = ''USD''\<rparr>"
  let ?c = "\<lparr>custom_id = Some ''user_2'', invoice_id = Some ''PRO_PLAN'', capture_id = ''cap_7'',
             capture_amount = Some ?paid\<rparr>"
  let ?ev = "completed_event ''cap_7'' ''user_2'' ''PRO_PLAN''"
  have plan: "CREDIT_PACKAGES ''PRO_PLAN'' = Some 500" by (simp add: CREDIT_PACKAGES_def)
  have h1: "event_type ?ev = ''PAYMENT.CAPTURE.COMPLETED''" by (simp add: completed_event_def)
  have h2: "resource ?ev = Some ?c" by (simp add: completed_event_def)
  have h3: "custom_id ?c = Some ''user_2''" and h4: "''user_2'' \<noteq> []"
   and h5: "invoice_id ?c = Some ''PRO_PLAN''" and h7: "capture_amount ?c = Some ?paid"
    by simp_all
  from every_delivery_credits[OF h1 h2 h3 h4 h5 plan h7, of 2 empty_store] plan
  show ?thesis by (simp add: empty_store_def balance_of_def numeral_2_eq_2)
qed

text \<open>
  Claim C1 fails as stated: the spec's example (capture \<open>cap_123\<close>, 100 credits)
  delivered three times leaves three ledger entries of +100 and a balance of 300.
\<close>

theorem three_deliveries_three_entries:
  "map txn_amount
     (credit_transactions
        (deliver 3 (completed_event ''cap_123'' ''user_1'' ''STARTER_PLAN'') empty_store))
     = [100, 100, 100] \<and>
   balance_of (deliver 3 (completed_event ''cap_123'' ''user_1'' ''STARTER_PLAN'') empty_store)
     ''user_1'' = 300"
proof -
  let ?paid = "\<lparr>amount_value = ''9.99'', currency_code = ''USD''\<rparr>"
  let ?c = "\<lparr>custom_id = Some ''user_1'', invoice_id = Some ''STARTER_PLAN'',
             capture_id = ''cap_123'', capture_amount = Some ?paid\<rparr>"
  let ?ev = "completed_event ''cap_123'' ''user_1'' ''STARTER_PLAN''"
  have plan: "CREDIT_PACKAGES ''STARTER_PLAN'' = Some 100" by (simp add: CREDIT_PACKAGES_def)
  have h1: "event_type ?ev = ''PAYMENT.CAPTURE.COMPLETED''" by (simp add: completed_event_def)
  have h2: "resource ?ev = Some ?c" by (simp add: completed_event_def)
  have h3: "custom_id ?c = Some ''user_1''" and h4: "''user_1'' \<noteq> []"
   and h5: "invoice_id ?c = Some ''STARTER_PLAN''" and h7: "capture_amount ?c = Some ?paid"
    by simp_all
  from deliver_many[OF h1 h2 h3 h4 h5 plan h7, of 3 empty_store]
  show ?thesis by (simp add: empty_store_def balance_of_def numeral_3_eq_3)
qed

section \<open>Properties of the batch route\<close>

lemma CREDIT_COSTS_cases:
  "CREDIT_COSTS operation = Some cost \<Longrightarrow>
   operation \<noteq> [] \<and> cost \<noteq> 0 \<and>
   cost = (if operation = ''convert'' then 2 else if operation = ''ocr'' then 3 else 1)"
  by (auto simp: CREDIT_COSTS_def split: if_splits)

lemma batch_check_valid:
  assumes "CREDIT_COSTS operation = Some cost" and "files \<noteq> []"
  shows "batch_check (Verified user) \<lparr>req_operation = Some operation, req_files = Some files\<rparr> s =
           (if balance_of s user < cost * int (length files)
            then Respond (Insufficient_credits (Finite (cost * int (length files)))
                            (balance_of s user))
            else Proceed user operation files (Finite (cost * int (length files))))"
  using assms CREDIT_COSTS_cases[OF assms(1)]
  by (simp add: batch_check_def Let_def get_property_Number)

lemma batch_check_Proceed:
  assumes "batch_check a req s = Proceed user operation files creditCost"
  shows "a = Verified user \<and> req_operation req = Some operation \<and> req_files req = Some files \<and>
         files \<noteq> [] \<and>
         creditCost = times_length (get_property CREDIT_COSTS operation) (length files) \<and>
         \<not> less_than (balance_of s user) creditCost"
  using assms
  by (auto simp: batch_check_def Let_def split: auth.splits option.splits if_splits)

text \<open>
  Claim C7. A submission by a verified user with an operation of the cost table and a
  non-empty file list, on a balance below the cost, is answered with status 402 and a
  body that carries the cost as \<open>required\<close> and the balance as \<open>available\<close>; the
  store is left exactly as it was (no job row, no call of the stored procedure), whatever
  the stored procedure is.
\<close>

theorem insufficient_credits_no_effect:
  assumes "CREDIT_COSTS operation = Some cost" and "files \<noteq> []"
      and "balance_of s user < cost * int (length files)"
  shows "batch_POST rpc createError (Verified user)
           \<lparr>req_operation = Some operation, req_files = Some files\<rparr> s =
         (Insufficient_credits (Finite (cost * int (length files))) (balance_of s user), s) \<and>
         batch_status (fst (batch_POST rpc createError (Verified user)
           \<lparr>req_operation = Some operation, req_files = Some files\<rparr> s)) = 402"
  using assms(3) by (simp add: batch_POST_def batch_check_valid[OF assms(1,2)])

text \<open>Three files for convert on a balance of 5.\<close>

theorem insufficient_credits_no_effect_witness:
  "CREDIT_COSTS ''convert'' = Some 2 \<and>
   batch_POST spec_deduct_credits False (Verified ''user_1'')
     \<lparr>req_operation = Some ''convert'', req_files = Some [''a.pdf'', ''b.pdf'', ''c.pdf'']\<rparr>
     (empty_store\<lparr>user_credits := [''user_1'' \<mapsto> 5]\<rparr>) =
   (Insufficient_credits (Finite 6) 5, empty_store\<lparr>user_credits := [''user_1'' \<mapsto> 5]\<rparr>)"
proof -
  have c: "CREDIT_COSTS ''convert'' = Some 2" by (simp add: CREDIT_COSTS_def)
  have f: "[''a.pdf'', ''b.pdf'', ''c.pdf''] \<noteq> []" by simp
  have b: "balance_of (empty_store\<lparr>user_credits := [''user_1'' \<mapsto> 5]\<rparr>) ''user_1'' <
           2 * int (length [''a.pdf'', ''b.pdf'', ''c.pdf''])"
    by (simp add: balance_of_def)
  from insufficient_credits_no_effect[OF c f b, where rpc = spec_deduct_credits
      and createError = False] c
  show ?thesis by (simp add: balance_of_def)
qed

text \<open>
  Claim C8. The cost table prices merge, split, compress, watermark, password_protect,
  remove_password, rotate, extract_pages and add_page_numbers at 1, convert at 2 and ocr
  at 3. For a verified user, any of these eleven operations and a non-empty file list,
  the amount the route works with is that unit cost times the number of files: it is the
  \<open>required\<close> of the 402 answer when the balance is below it, and otherwise the
  amount passed to the stored procedure and reported as \<open>credits_used\<close>.
\<close>

theorem reserved_amount:
  assumes "operation \<in>
             {''merge'', ''split'', ''compress'', ''convert'', ''watermark'', ''password_protect'',
              ''remove_password'', ''rotate'', ''extract_pages'', ''add_page_numbers'', ''ocr''}"
      and "files \<noteq> []"
      and "cost = (if operation = ''convert'' then 2 else if operation = ''ocr'' then 3 else 1)"
  shows "CREDIT_COSTS operation = Some cost \<and>
         batch_POST rpc False (Verified user)
           \<lparr>req_operation = Some operation, req_files = Some files\<rparr> s =
         (if balance_of s user < cost * int (length files)
          then (Insufficient_credits (Finite (cost * int (length files))) (balance_of s user), s)
          else
            (Batch_created (pending_job s user operation files)
               (Finite (cost * int (length files))),
             enqueue_job (length (batch_jobs s))
               (rpc user (Finite (cost * int (length files))) (batch_reason operation files)
                  (insert_job (pending_job s user operation files) s))))"
proof -
  have c: "CREDIT_COSTS operation = Some cost"
    using assms(1,3) by (auto simp: CREDIT_COSTS_def)
  show ?thesis
    using c CREDIT_COSTS_cases[OF c]
    by (simp add: batch_POST_def batch_check_valid[OF c assms(2)] batch_commit_def Let_def
        pending_job_def)
qed

text \<open>Two files for split and two files for ocr, on a balance of 10.\<close>

theorem reserved_amount_witness:
  "CREDIT_COSTS ''split'' = Some 1 \<and> CREDIT_COSTS ''ocr'' = Some 3 \<and>
   fst (batch_POST (\<lambda>u n r s. s) False (Verified ''user_1'')
          \<lparr>req_operation = Some ''split'', req_files = Some [''a.pdf'', ''b.pdf'']\<rparr>
          (empty_store\<lparr>user_credits := [''user_1'' \<mapsto> 10]\<rparr>)) =
     Batch_created
       (pending_job (empty_store\<lparr>user_credits := [''user_1'' \<mapsto> 10]\<rparr>) ''user_1'' ''split''
          [''a.pdf'', ''b.pdf'']) (Finite 2) \<and>
   fst (batch_POST (\<lambda>u n r s. s) False (Verified ''user_1'')
          \<lparr>req_operation = Some ''ocr'', req_files = Some [''a.pdf'', ''b.pdf'']\<rparr>
          (empty_store\<lparr>user_credits := [''user_1'' \<mapsto> 10]\<rparr>)) =
     Batch_created
       (pending_job (empty_store\<lparr>user_credits := [''user_1'' \<mapsto> 10]\<rparr>) ''user_1'' ''ocr''
          [''a.pdf'', ''b.pdf'']) (Finite 6)"
proof -
  let ?ops = "{''merge'', ''split'', ''compress'', ''convert'', ''watermark'',
               ''password_protect'', ''remove_password'', ''rotate'', ''extract_pages'',
               ''add_page_numbers'', ''ocr''}"
  have split: "''split'' \<in> ?ops" and ocr: "''ocr'' \<in> ?ops" by simp_all
  have f: "[''a.pdf'', ''b.pdf''] \<noteq> []" by simp
  have c1: "(1::int) = (if ''split'' = ''convert'' then 2 else if ''split'' = ''ocr'' then 3 else 1)"
   and c3: "(3::int) = (if ''ocr'' = ''convert'' then 2 else if ''ocr'' = ''ocr'' then 3 else 1)"
    by simp_all
  from reserved_amount[OF split f c1, where rpc = "\<lambda>u n r s. s" and user = "''user_1''"
      and s = "empty_store\<lparr>user_credits := [''user_1'' \<mapsto> 10]\<rparr>"]
    reserved_amount[OF ocr f c3, where rpc = "\<lambda>u n r s. s" and user = "''user_1''"
      and s = "empty_store\<lparr>user_credits := [''user_1'' \<mapsto> 10]\<rparr>"]
  show ?thesis by (simp add: balance_of_def)
qed





text \<open>
  An operation that names an inherited member passes the validity test, its cost is
  \<^verbatim>\<open>NaN\<close>, and the balance comparison is false: on a balance of 0 the job is created
  and the stored procedure is called without an amount.
\<close>

lemma inherited_operation_skips_balance_check:
  "batch_POST rpc False (Verified ''user_1'')
     \<lparr>req_operation = Some ''constructor'', req_files = Some [''a.pdf'']\<rparr> empty_store =
   (Batch_created (pending_job empty_store ''user_1'' ''constructor'' [''a.pdf'']) NaN,
    enqueue_job 0
      (rpc ''user_1'' NaN (batch_reason ''constructor'' [''a.pdf''])
         (insert_job (pending_job empty_store ''user_1'' ''constructor'' [''a.pdf''])
            empty_store)))"
  by (simp add: batch_POST_def batch_check_def batch_commit_def get_property_def
      CREDIT_COSTS_def Object_prototype_functions_def Let_def pending_job_def empty_store_def)

section \<open>Properties of the credit deduction route\<close>

text \<open>
  Claim C10, amended. For a verified user and a body that parses to a JSON value other
  than \<open>null\<close>, a request whose \<open>amount\<close> is absent, not a number, not greater
  than 0 or greater than 1000 is answered with status 400 when the rate limiter admits
  the request and with status 429 when it does not; in both cases the store is left as
  it was and \<^verbatim>\<open>deductCreditsAtomic\<close> has no part in the answer, whatever it is.
\<close>

theorem invalid_amount_rejected:
  assumes "b \<noteq> JNull" and "\<not> acceptable_amount (member_of b ''amount'')"
  shows "\<exists>msg. deduct_POST d now (Verified user) (Some b) (limits, s) =
           (if fst (checkRateLimit now user limits) then Invalid_amount msg
            else Rate_limit_exceeded,
            snd (checkRateLimit now user limits), s)"
proof (cases "fst (checkRateLimit now user limits)")
  case False
  then show ?thesis by (simp add: deduct_POST_def)
next
  case True
  show ?thesis
  proof (cases "member_of b ''amount''")
    case None
    then show ?thesis using True assms(1)
      by (cases b) (simp_all add: deduct_POST_def)
  next
    case (Some v)
    show ?thesis
    proof (cases v)
      case (JNum n)
      then have "n \<le> 0 \<or> 1000 < n"
        using assms(2) Some by (auto simp: acceptable_amount_def)
      then show ?thesis using True assms(1) Some JNum
        by (cases b) (auto simp: deduct_POST_def)
    qed (use True assms(1) Some in \<open>cases b; simp add: deduct_POST_def\<close>)+
  qed
qed

text \<open>An amount of -5, first request of the user.\<close>

theorem invalid_amount_rejected_witness:
  "\<not> acceptable_amount (member_of (JObj [(''amount'', JNum (- 5))]) ''amount'') \<and>
   fst (checkRateLimit 0 ''user_1'' Map.empty) \<and>
   deduct_status (fst (deduct_POST (\<lambda>u n r s. (Some (Deduct_success 0), s)) 0 (Verified ''user_1'')
       (Some (JObj [(''amount'', JNum (- 5))])) (Map.empty, empty_store))) = 400 \<and>
   snd (snd (deduct_POST (\<lambda>u n r s. (Some (Deduct_success 0), s)) 0 (Verified ''user_1'')
       (Some (JObj [(''amount'', JNum (- 5))])) (Map.empty, empty_store))) = empty_store"
proof -
  let ?b = "JObj [(''amount'', JNum (- 5))]"
  have h1: "?b \<noteq> JNull" by simp
  have h2: "\<not> acceptable_amount (member_of ?b ''amount'')"
    by (simp add: acceptable_amount_def)
  have adm: "fst (checkRateLimit 0 ''user_1'' Map.empty)"
    by (simp add: checkRateLimit_def)
  from invalid_amount_rejected[OF h1 h2, where d = "\<lambda>u n r s. (Some (Deduct_success 0), s)"
      and now = 0 and user = "''user_1''" and limits = Map.empty and s = empty_store] adm
  have "deduct_status (fst (deduct_POST (\<lambda>u n r s. (Some (Deduct_success 0), s)) 0 (Verified ''user_1'')
       (Some ?b) (Map.empty, empty_store))) = 400 \<and>
    snd (snd (deduct_POST (\<lambda>u n r s. (Some (Deduct_success 0), s)) 0 (Verified ''user_1'')
       (Some ?b) (Map.empty, empty_store))) = empty_store"
    by auto
  then show ?thesis using h2 adm by simp
qed

text \<open>
  Claim C10 fails as stated: a verified user who has used the ten requests of the
  running window and sends an amount of -5 is answered with status 429, not 400.
\<close>

theorem invalid_amount_rate_limited:
  "deduct_status (fst (deduct_POST (\<lambda>u n r s. (Some (Deduct_success 0), s)) 50000 (Verified ''user_1'')
       (Some (JObj [(''amount'', JNum (- 5))]))
       ([''user_1'' \<mapsto> \<lparr>count = 10, resetAt = 60000\<rparr>], empty_store))) = 429"
  by (simp add: deduct_POST_def checkRateLimit_def RATE_LIMIT_def)

section \<open>The balance is never negative\<close>

lemma balance_of_console [simp]:
  "balance_of (console_error msg s) u = balance_of s u"
  "balance_of (console_log msg s) u = balance_of s u"
  by (simp_all add: balance_of_def console_error_def console_log_def)

lemma balance_of_post_entry:
  "balance_of (post_entry a delta reason key s) u =
     (if u = a then balance_of s a + delta else balance_of s u)"
  by (simp add: post_entry_def balance_of_def)

lemma debit_keeps_nonneg:
  "0 \<le> balance_of s u \<Longrightarrow> 0 \<le> balance_of (snd (debit a amount reason key s)) u"
  by (simp add: debit_def balance_of_post_entry)

lemma reserve_keeps_nonneg:
  "0 \<le> balance_of s u \<Longrightarrow> 0 \<le> balance_of (snd (reserve a amount key reason s)) u"
  by (simp add: reserve_def debit_keeps_nonneg split: option.splits)

lemma credit_keeps_nonneg:
  "0 \<le> balance_of s u \<Longrightarrow> 0 < amount \<Longrightarrow>
   0 \<le> balance_of (snd (credit a amount key reason s)) u"
  by (auto simp: credit_def balance_of_post_entry split: option.splits)

lemma reconcile_keeps_nonneg:
  assumes "0 \<le> balance_of s u"
  shows "0 \<le> balance_of (snd (reconcile a job reserved actual key s)) u"
proof (cases "actual < reserved")
  case True
  then have "0 < reserved - actual" by simp
  from credit_keeps_nonneg[OF assms this, of a key "''refund''"]
  show ?thesis using True
    by (cases "credit a (reserved - actual) key ''refund'' s";
        cases "fst (credit a (reserved - actual) key ''refund'' s)")
       (simp_all add: reconcile_def)
next
  case False
  then show ?thesis using assms by (simp add: reconcile_def)
qed

text \<open>
  A delivery to the webhook route, on its own column, adds a positive amount or leaves
  the credits as they were.
\<close>

lemma get_current_credits_Selected:
  "get_current_credits event s = Selected c user plan k cur \<Longrightarrow>
   cur = balance_of s user \<and> (\<forall>v. k = Number v \<longrightarrow> 0 < v)"
  by (auto simp: get_current_credits_def get_property_def Let_def CREDIT_PACKAGES_positive
           split: option.splits if_splits)

lemma get_current_credits_early:
  "get_current_credits event s = Return_early r s' \<Longrightarrow> balance_of s' u = balance_of s u"
  by (auto simp: get_current_credits_def Let_def split: option.splits if_splits)

lemma balance_of_update_credits:
  "balance_of (snd (update_credits c user plan k cur s)) u =
     (case k of
        Number v \<Rightarrow> if u = user then cur + v else balance_of s u
      | _ \<Rightarrow> balance_of s u)"
  by (simp add: update_credits_def Let_def balance_of_def console_error_def console_log_def
           split: option.splits looked_up.splits)

lemma handlePaymentCompleted_keeps_nonneg:
  assumes "0 \<le> balance_of s u"
  shows "0 \<le> balance_of (snd (handlePaymentCompleted event s)) u"
proof (cases "get_current_credits event s")
  case (Return_early r s')
  then show ?thesis using assms get_current_credits_early[OF Return_early, of u]
    by (simp add: handlePaymentCompleted_def)
next
  case (Selected c user plan k cur)
  from get_current_credits_Selected[OF this]
  have k: "cur = balance_of s user" "\<forall>v. k = Number v \<longrightarrow> 0 < v" by simp_all
  show ?thesis using assms k Selected
    by (cases k) (auto simp: handlePaymentCompleted_def balance_of_update_credits)
qed

lemma webhook_POST_keeps_nonneg:
  assumes "0 \<le> balance_of s u"
  shows "0 \<le> balance_of (snd (webhook_POST isValid event s)) u"
proof -
  have failed: "balance_of (handlePaymentFailed event s) u = balance_of s u"
    by (simp add: handlePaymentFailed_def balance_of_def console_error_def console_log_def
             split: option.splits)
  show ?thesis
    using handlePaymentCompleted_keeps_nonneg[OF assms, of event] failed assms
    by (cases "handlePaymentCompleted event s"; cases "fst (handlePaymentCompleted event s)")
       (auto simp: webhook_POST_def)
qed

lemma batch_POST_keeps_nonneg:
  assumes "0 \<le> balance_of s u"
  shows "0 \<le> balance_of (snd (batch_POST spec_deduct_credits createError a req s)) u"
proof (cases "batch_check a req s")
  case (Respond r)
  then show ?thesis using assms by (simp add: batch_POST_def)
next
  case (Proceed user operation files creditCost)
  have ins: "\<And>j. balance_of (insert_job j s) u = balance_of s u"
    by (simp add: insert_job_def balance_of_def)
  have enq: "\<And>j t. balance_of (enqueue_job j t) u = balance_of t u"
    by (simp add: enqueue_job_def balance_of_def)
  show ?thesis using assms Proceed
    by (cases creditCost)
       (simp_all add: batch_POST_def batch_commit_def Let_def enq debit_keeps_nonneg ins)
qed

lemma spec_deductCreditsAtomic_keeps_nonneg:
  "0 \<le> balance_of s u \<Longrightarrow>
   0 \<le> balance_of (snd (spec_deductCreditsAtomic userId amount reason s)) u"
  using debit_keeps_nonneg[of s u userId "fst (quotient_of amount)"
      "case reason of JStr t \<Rightarrow> t | _ \<Rightarrow> []" None]
  by (cases "debit userId (fst (quotient_of amount)) (case reason of JStr t \<Rightarrow> t | _ \<Rightarrow> []) None s";
      cases "fst (debit userId (fst (quotient_of amount)) (case reason of JStr t \<Rightarrow> t | _ \<Rightarrow> []) None s)")
     (simp_all add: spec_deductCreditsAtomic_def)

lemma deduct_POST_keeps:
  assumes "0 \<le> balance_of s u"
      and "\<And>user amount reason res s'.
             d user amount reason s = (res, s') \<Longrightarrow> 0 \<le> balance_of s' u"
  shows "0 \<le> balance_of (snd (snd (deduct_POST d now a body (limits, s)))) u"
proof (cases a)
  case (Verified user)
  show ?thesis
  proof (cases body)
    case None
    then show ?thesis using Verified assms(1) by (simp add: deduct_POST_def Let_def)
  next
    case (Some b)
    show ?thesis
    proof (cases "member_of b ''amount''")
      case None
      then show ?thesis using Verified Some assms(1)
        by (cases b) (simp_all add: deduct_POST_def Let_def)
    next
      case amount: (Some v)
      show ?thesis
      proof (cases v)
        case (JNum n)
        then show ?thesis using Verified Some amount assms
          by (cases b)
             (auto simp: deduct_POST_def Let_def split: prod.splits option.splits deduct_result.splits)
      qed (use Verified Some amount assms(1) in \<open>cases b; simp add: deduct_POST_def Let_def\<close>)+
    qed
  qed
qed (use assms(1) in \<open>simp_all add: deduct_POST_def Let_def\<close>)

lemma deduct_POST_keeps_nonneg:
  assumes "0 \<le> balance_of s u"
  shows "0 \<le> balance_of
           (snd (snd (deduct_POST spec_deductCreditsAtomic now a body (limits, s)))) u"
proof (rule deduct_POST_keeps[OF assms])
  fix user amount reason res s'
  assume "spec_deductCreditsAtomic user amount reason s = (res, s')"
  then have "s' = snd (spec_deductCreditsAtomic user amount reason s)" by simp
  then show "0 \<le> balance_of s' u"
    using spec_deductCreditsAtomic_keeps_nonneg[OF assms] by simp
qed

lemma apply_call_keeps_nonneg:
  "0 \<le> balance_of s u \<Longrightarrow> well_formed c \<Longrightarrow>
   0 \<le> balance_of (snd (apply_call c (limits, s))) u"
  by (cases c)
     (simp_all add: reserve_keeps_nonneg credit_keeps_nonneg reconcile_keeps_nonneg
        batch_POST_keeps_nonneg deduct_POST_keeps_nonneg)

lemma apply_calls_keep_nonneg:
  "0 \<le> balance_of (snd st) u \<Longrightarrow> list_all well_formed calls \<Longrightarrow>
   0 \<le> balance_of (snd (apply_calls calls st)) u"
proof (induction calls arbitrary: st)
  case Nil
  then show ?case by simp
next
  case (Cons c cs)
  obtain limits s where st: "st = (limits, s)" by (cases st)
  have "0 \<le> balance_of (snd (apply_call c st)) u"
    using Cons.prems st by (simp add: apply_call_keeps_nonneg)
  then show ?case using Cons.IH[of "apply_call c st"] Cons.prems(2) by simp
qed

text \<open>
  The comparison of the batch route alone keeps the balance from going below zero in a
  run of submissions, also with a stored procedure that takes the amount it is given
  without a check of its own.
\<close>

lemma batch_route_own_comparison:
  assumes "batch_POST rpc createError (Verified user) req s = (Batch_created job (Finite c), s')"
      and "\<And>r t. balance_of (rpc user (Finite c) r t) user = balance_of t user - c"
  shows "0 \<le> balance_of s' user"
proof (cases "batch_check (Verified user) req s")
  case (Respond r)
  then show ?thesis using assms(1)
    by (auto simp: batch_POST_def batch_check_def Let_def
             split: auth.splits option.splits if_splits)
next
  case (Proceed user' operation files creditCost)
  from batch_check_Proceed[OF this]
  have p: "user' = user" "\<not> less_than (balance_of s user) creditCost" by auto
  have run: "batch_commit rpc createError user operation files creditCost s =
             (Batch_created job (Finite c), s')"
    using assms(1) Proceed p(1) by (simp add: batch_POST_def)
  then have j: "creditCost = Finite c" "job = pending_job s user operation files"
      "s' = enqueue_job (job_id job)
              (rpc user (Finite c) (batch_reason operation files) (insert_job job s))"
    by (auto simp: batch_commit_def Let_def split: if_splits)
  have "balance_of s' user = balance_of (insert_job job s) user - c"
    unfolding j(3) using assms(2)[of "batch_reason operation files" "insert_job job s"]
    by (simp add: enqueue_job_def balance_of_def)
  moreover have "balance_of (insert_job job s) user = balance_of s user"
    by (simp add: insert_job_def balance_of_def)
  moreover have "c \<le> balance_of s user" using p(2) j(1) by simp
  ultimately show ?thesis by simp
qed

text \<open>
  Claim C3. From a store in which the balance of an account is not negative, after any
  number of steps of any run of well-formed calls (ledger reserve, credit and reconcile,
  batch submissions with the stored procedure as the spec's reserve, deduction requests
  with \<^verbatim>\<open>deductCreditsAtomic\<close> as the spec's reserve) the balance of the account is
  not negative.
\<close>

theorem balance_never_negative:
  assumes "0 \<le> balance_of s account" and "list_all well_formed calls"
  shows "0 \<le> balance_of (snd (apply_calls (take k calls) (limits, s))) account"
proof -
  have "list_all well_formed (take k calls)"
    using assms(2) by (auto simp: list_all_iff dest: in_set_takeD)
  with assms(1) show ?thesis
    using apply_calls_keep_nonneg[of "(limits, s)" account "take k calls"] by simp
qed

text \<open>The balance of \<open>user_1\<close> along the run \<open>some_calls\<close>.\<close>

theorem balance_never_negative_witness:
  "0 \<le> balance_of empty_store ''user_1'' \<and> list_all well_formed some_calls \<and>
   0 \<le> balance_of (snd (apply_calls (take 4 some_calls) (Map.empty, empty_store))) ''user_1'' \<and>
   map (\<lambda>k. balance_of (snd (apply_calls (take k some_calls) (Map.empty, empty_store))) ''user_1'')
     [0, 1, 2, 3, 4, 5, 6, 7, 8, 9] = [0, 100, 94, 44, 44, 44, 44, 4, 4, 14]"
proof -
  have h1: "0 \<le> balance_of empty_store ''user_1''"
    by (simp add: balance_of_def empty_store_def)
  have h2: "list_all well_formed some_calls"
    by (simp add: some_calls_def)
  have run: "map (\<lambda>k. balance_of (snd (apply_calls (take k some_calls) (Map.empty, empty_store)))
                     ''user_1'')
     [0, 1, 2, 3, 4, 5, 6, 7, 8, 9] = [0, 100, 94, 44, 44, 44, 44, 4, 4, 14]"
    by code_simp
  from balance_never_negative[OF h1 h2, of 4 Map.empty] h1 h2 run
  show ?thesis by simp
qed

section \<open>Alternating requests\<close>

text \<open>
  For comparison, the same requests one after the other: the two deliveries leave a
  balance of 600, and with the stored procedure as the spec's reserve the second
  submission finds a balance of 2 and is answered 402.
\<close>

lemma requests_in_sequence:
  "balance_of
     (snd (webhook_POST True (completed_event ''cap_B'' ''user_1'' ''PRO_PLAN'')
        (snd (webhook_POST True (completed_event ''cap_A'' ''user_1'' ''STARTER_PLAN'')
           empty_store)))) ''user_1'' = 600 \<and>
   fst (batch_POST spec_deduct_credits False (Verified ''user_1'')
          \<lparr>req_operation = Some ''merge'', req_files = Some [''d.pdf'', ''e.pdf'', ''f.pdf'']\<rparr>
          (snd (batch_POST spec_deduct_credits False (Verified ''user_1'')
             \<lparr>req_operation = Some ''merge'', req_files = Some [''a.pdf'', ''b.pdf'', ''c.pdf'']\<rparr>
             (empty_store\<lparr>user_credits := [''user_1'' \<mapsto> 5]\<rparr>)))) =
     Insufficient_credits (Finite 3) 2"
  by code_simp

text \<open>
  Claim C2 at two pairs of requests whose store calls alternate. Two deliveries for one
  user, of 100 and of 500 credits, both read the balance 0 before either writes: both
  end credited, the ledger holds +100 and +500, and the balance is 500. Two submissions
  of cost 3 each on a balance of 5 both pass the balance comparison before either
  deducts: both are answered with the created job and 3 credits used, whatever the
  stored procedure does.
\<close>

theorem alternating_requests_lose_atomicity:
  "(\<exists>s2. alternating_deliveries
            (completed_event ''cap_A'' ''user_1'' ''STARTER_PLAN'')
            (completed_event ''cap_B'' ''user_1'' ''PRO_PLAN'') empty_store =
          Some (Returned_credited, Returned_credited, s2) \<and>
        map txn_amount (credit_transactions s2) = [100, 500] \<and>
        balance_of s2 ''user_1'' = 500) \<and>
   balance_of (empty_store\<lparr>user_credits := [''user_1'' \<mapsto> 5]\<rparr>) ''user_1'' = 5 \<and>
   (\<forall>rpc. \<exists>job1 job2 s2.
        alternating_submissions rpc
          (Verified ''user_1'')
          \<lparr>req_operation = Some ''merge'', req_files = Some [''a.pdf'', ''b.pdf'', ''c.pdf'']\<rparr>
          (Verified ''user_1'')
          \<lparr>req_operation = Some ''merge'', req_files = Some [''d.pdf'', ''e.pdf'', ''f.pdf'']\<rparr>
          (empty_store\<lparr>user_credits := [''user_1'' \<mapsto> 5]\<rparr>) =
        Some (Batch_created job1 (Finite 3), Batch_created job2 (Finite 3), s2))"
proof (intro conjI allI)
  have starter: "get_property CREDIT_PACKAGES ''STARTER_PLAN'' = Number 100"
   and pro: "get_property CREDIT_PACKAGES ''PRO_PLAN'' = Number 500"
    by (simp_all add: CREDIT_PACKAGES_def get_property_def)
  show "\<exists>s2. alternating_deliveries
            (completed_event ''cap_A'' ''user_1'' ''STARTER_PLAN'')
            (completed_event ''cap_B'' ''user_1'' ''PRO_PLAN'') empty_store =
          Some (Returned_credited, Returned_credited, s2) \<and>
        map txn_amount (credit_transactions s2) = [100, 500] \<and>
        balance_of s2 ''user_1'' = 500"
    by (simp add: alternating_deliveries_def get_current_credits_def update_credits_def
        completed_event_def starter pro
        falsy_def Let_def balance_of_def empty_store_def console_log_def)
  show "balance_of (empty_store\<lparr>user_credits := [''user_1'' \<mapsto> 5]\<rparr>) ''user_1'' = 5"
    by (simp add: balance_of_def)
  fix rpc :: "string \<Rightarrow> js_number \<Rightarrow> string \<Rightarrow> store \<Rightarrow> store"
  have merge: "get_property CREDIT_COSTS ''merge'' = Number 1"
    by (simp add: CREDIT_COSTS_def get_property_def)
  show "\<exists>job1 job2 s2.
        alternating_submissions rpc
          (Verified ''user_1'')
          \<lparr>req_operation = Some ''merge'', req_files = Some [''a.pdf'', ''b.pdf'', ''c.pdf'']\<rparr>
          (Verified ''user_1'')
          \<lparr>req_operation = Some ''merge'', req_files = Some [''d.pdf'', ''e.pdf'', ''f.pdf'']\<rparr>
          (empty_store\<lparr>user_credits := [''user_1'' \<mapsto> 5]\<rparr>) =
        Some (Batch_created job1 (Finite 3), Batch_created job2 (Finite 3), s2)"
    by (simp add: alternating_submissions_def batch_check_def batch_commit_def
        merge Let_def balance_of_def empty_store_def)
qed

end
